theory Spec2Isabelle
  imports Main
begin

section \<open>Strings\<close>

text \<open>
  The page script of \<^verbatim>\<open>src/routes/+page.svelte\<close> works on JavaScript strings. They are
  modelled as \<^typ>\<open>string\<close>, one \<^typ>\<open>char\<close> per code unit, for the code units below 256
  (ASCII and Latin-1). The library functions the script calls on them are written out
  for that range: \<^verbatim>\<open>trim\<close>, \<^verbatim>\<open>toLowerCase\<close>, \<^verbatim>\<open>includes\<close>, the global
  \<^verbatim>\<open>replace\<close> of one character, and the decimal rendering of a number inside a
  template literal.
\<close>

definition is_whitespace :: "char \<Rightarrow> bool" where
  "is_whitespace c =
     (let n = (of_char c :: nat)
      in n = 9 \<or> n = 10 \<or> n = 11 \<or> n = 12 \<or> n = 13 \<or> n = 32 \<or> n = 160)"

definition trim :: "string \<Rightarrow> string" where
  "trim s = rev (dropWhile is_whitespace (rev (dropWhile is_whitespace s)))"

definition lower_char :: "char \<Rightarrow> char" where
  "lower_char c =
     (let n = (of_char c :: nat)
      in if (65 \<le> n \<and> n \<le> 90) \<or> (192 \<le> n \<and> n \<le> 222 \<and> n \<noteq> 215)
         then char_of (n + 32) else c)"

definition toLowerCase :: "string \<Rightarrow> string" where
  "toLowerCase s = map lower_char s"

fun starts_with :: "string \<Rightarrow> string \<Rightarrow> bool" where
  "starts_with s [] = True"
| "starts_with [] (d # t) = False"
| "starts_with (c # s) (d # t) = (c = d \<and> starts_with s t)"

text \<open>\<^verbatim>\<open>s.includes(t)\<close>: \<open>t\<close> occurs in \<open>s\<close> as a contiguous run.\<close>

fun includes_sub :: "string \<Rightarrow> string \<Rightarrow> bool" where
  "includes_sub [] t = (t = [])"
| "includes_sub (c # s) t = (starts_with (c # s) t \<or> includes_sub s t)"

text \<open>\<^verbatim>\<open>s.replace(/c/g, r)\<close> for a single character \<open>c\<close>: every occurrence, left to right.\<close>

definition replace_all :: "char \<Rightarrow> string \<Rightarrow> string \<Rightarrow> string" where
  "replace_all c r s = concat (map (\<lambda>x. if x = c then r else [x]) s)"

definition digit_char :: "nat \<Rightarrow> char" where
  "digit_char d = char_of (48 + d)"

fun string_of_nat :: "nat \<Rightarrow> string" where
  "string_of_nat n =
     (if n < 10 then [digit_char n] else string_of_nat (n div 10) @ [digit_char (n mod 10)])"

declare string_of_nat.simps [simp del]

section \<open>The content renderer\<close>

text \<open>
  \<^verbatim>\<open>parseMarkdown(markdownText)\<close>, lines 25 to 53. The parameter is declared a string, and
  the first test also answers for \<^verbatim>\<open>null\<close> and \<^verbatim>\<open>undefined\<close>, so the argument is one
  of the three. \<^verbatim>\<open>marked.parse\<close> and \<^verbatim>\<open>DOMPurify.sanitize\<close> are collaborators: each is
  a parameter that returns markup or throws. \<^verbatim>\<open>typeof window !== 'undefined'\<close> is the
  parameter \<open>in_browser\<close>. The result comes with the list of collaborator calls made, in
  order, so that "was not called" can be said.
\<close>

datatype js_text = JNull | JUndefined | JStr string

datatype thrown = Thrown string

datatype collaborator_call = MarkedParse string | Sanitize string

text \<open>\<^verbatim>\<open>!markdownText\<close>: null, undefined and the empty string are falsy.\<close>

fun falsy :: "js_text \<Rightarrow> bool" where
  "falsy JNull = True"
| "falsy JUndefined = True"
| "falsy (JStr s) = (s = [])"

text \<open>\<^verbatim>\<open>String(markdownText)\<close>.\<close>

fun String_of :: "js_text \<Rightarrow> string" where
  "String_of JNull = ''null''"
| "String_of JUndefined = ''undefined''"
| "String_of (JStr s) = s"

text \<open>
  The \<^verbatim>\<open>catch\<close> block, lines 45 to 51, as the source has it: five global replaces, each
  of a character by the replacement string the source gives, then the line feeds.
\<close>

definition fallback :: "js_text \<Rightarrow> string" where
  "fallback markdownText =
     (let escapedText =
            replace_all (CHR 0x27) [CHR 0x27]
              (replace_all (CHR 0x22) [CHR 0x22]
                (replace_all CHR ''>'' ''>''
                  (replace_all CHR ''<'' ''<''
                    (replace_all CHR ''&'' ''&'' (String_of markdownText)))))
      in replace_all (CHR 0x0A) ''<br>'' escapedText)"

definition parseMarkdown ::
  "(string \<Rightarrow> thrown + string) \<Rightarrow> (string \<Rightarrow> thrown + string) \<Rightarrow> bool \<Rightarrow> js_text
     \<Rightarrow> string \<times> collaborator_call list" where
  "parseMarkdown marked_parse sanitize in_browser markdownText =
     (if falsy markdownText then ('''', [])
      else
        (case marked_parse (String_of markdownText) of
           Inl e \<Rightarrow> (fallback markdownText, [MarkedParse (String_of markdownText)])
         | Inr rawHtml \<Rightarrow>
             if in_browser then
               (case sanitize rawHtml of
                  Inl e \<Rightarrow>
                    (fallback markdownText,
                     [MarkedParse (String_of markdownText), Sanitize rawHtml])
                | Inr clean \<Rightarrow>
                    (clean, [MarkedParse (String_of markdownText), Sanitize rawHtml]))
             else (rawHtml, [MarkedParse (String_of markdownText)])))"

section \<open>The page state\<close>

text \<open>
  The script's variables, lines 6 to 24 and 59. An inbound envelope is a
  \<^verbatim>\<open>ChatMessageFromServer\<close>; its two optional flags are absent (\<open>None\<close>) or set.
  The field \<^verbatim>\<open>id\<close> is \<open>msg_id\<close> here. The socket \<^verbatim>\<open>ws\<close> is \<^verbatim>\<open>null\<close> (\<open>None\<close>) or
  a WebSocket, of which the script reads only \<^verbatim>\<open>readyState\<close>. Two fields record what
  the script hands to the environment: \<open>sent\<close>, the commands \<^verbatim>\<open>ws.send\<close> put on the
  wire, oldest first, and \<open>timers\<close>, the delays in milliseconds of the pending
  \<^verbatim>\<open>setTimeout(connectWebSocket, d)\<close> calls, oldest first.
\<close>

record ChatMessageFromServer =
  msg_id :: string
  speaker :: string
  content :: string
  timestamp :: string
  isThinking :: "bool option"
  isRegenerated :: "bool option"

datatype session_state = idle | automated_debate | user_interaction | summarizing

datatype ready_state = CONNECTING | OPEN | CLOSING | CLOSED

text \<open>The payload object of an outbound command: \<^verbatim>\<open>{}\<close>, \<^verbatim>\<open>{content}\<close> or \<^verbatim>\<open>{topic, persona_ids}\<close>.\<close>

datatype payload = NoFields | Content string | TopicPersonas string "string list"

type_synonym command = "string \<times> payload"

record page =
  messages :: "ChatMessageFromServer list"
  ws :: "ready_state option"
  userInput :: string
  debateTopicInput :: string
  isConnected :: bool
  currentSessionState :: session_state
  showError :: "string option"
  thinkingSpeakers :: "string set"
  selectedPersonaIds :: "string list"
  sent :: "command list"
  timers :: "nat list"

text \<open>The state the script starts in, before \<^verbatim>\<open>onMount\<close> runs.\<close>

definition initial_page :: page where
  "initial_page =
     \<lparr>messages = [], ws = None, userInput = '''', debateTopicInput = '''',
      isConnected = False, currentSessionState = idle, showError = None,
      thinkingSpeakers = {},
      selectedPersonaIds = [''nilm_expert'', ''data_scientist'', ''moderator''],
      sent = [], timers = []\<rparr>"

section \<open>The socket handlers\<close>

text \<open>\<^verbatim>\<open>connectWebSocket\<close>, line 79: a new socket, which starts in \<^verbatim>\<open>CONNECTING\<close>.\<close>

definition connectWebSocket :: "page \<Rightarrow> page" where
  "connectWebSocket s = s\<lparr>ws := Some CONNECTING\<rparr>"

text \<open>\<^verbatim>\<open>ws.onopen\<close>, lines 81 to 91.\<close>

definition ws_onopen :: "page \<Rightarrow> page" where
  "ws_onopen s =
     (let s1 = s\<lparr>isConnected := True, showError := None\<rparr>
      in if currentSessionState s1 = summarizing \<or> currentSessionState s1 = idle then s1
         else if currentSessionState s1 \<noteq> user_interaction
                 \<and> currentSessionState s1 \<noteq> automated_debate
              then s1\<lparr>currentSessionState := idle\<rparr>
         else s1)"

text \<open>
  \<^verbatim>\<open>ws.onmessage\<close>, lines 93 to 124. The argument is what \<^verbatim>\<open>JSON.parse(event.data)\<close>
  gives: an envelope, or \<open>None\<close> when it throws, which the \<^verbatim>\<open>catch\<close> turns into the
  error notice. \<^verbatim>\<open>message.isThinking\<close> is truthy only when the flag is present and true.
  The scrolling after the update touches the DOM only and is left out.
\<close>

definition ws_onmessage :: "ChatMessageFromServer option \<Rightarrow> page \<Rightarrow> page" where
  "ws_onmessage parsed s =
     (case parsed of
        None \<Rightarrow> s\<lparr>showError := Some ''Error processing server message.''\<rparr>
      | Some message \<Rightarrow>
          if isThinking message = Some True
          then s\<lparr>thinkingSpeakers := insert (speaker message) (thinkingSpeakers s)\<rparr>
          else
            (let s1 = s\<lparr>thinkingSpeakers := thinkingSpeakers s - {speaker message},
                          messages := messages s @ [message]\<rparr>
             in if speaker message = ''System'' then
                  (let lowerContent = toLowerCase (content message)
                   in if includes_sub lowerContent ''debate started''
                      then s1\<lparr>currentSessionState := automated_debate\<rparr>
                      else if includes_sub lowerContent ''automated debate phase complete''
                      then s1\<lparr>currentSessionState := user_interaction\<rparr>
                      else if includes_sub lowerContent ''generating final summary''
                      then s1\<lparr>currentSessionState := summarizing\<rparr>
                      else if includes_sub lowerContent ''debate concluded''
                              \<or> includes_sub lowerContent ''session ended''
                              \<or> includes_sub lowerContent ''session stopped''
                      then s1\<lparr>currentSessionState := idle, debateTopicInput := ''''\<rparr>
                      else s1)
                else s1))"

text \<open>\<^verbatim>\<open>ws.onclose\<close>, lines 126 to 134.\<close>

definition ws_onclose :: "page \<Rightarrow> page" where
  "ws_onclose s =
     s\<lparr>isConnected := False, thinkingSpeakers := {},
       showError := Some ''Disconnected. Reconnecting...'',
       timers := timers s @ [3000]\<rparr>"

text \<open>\<^verbatim>\<open>ws.onerror\<close>, lines 136 to 140.\<close>

definition ws_onerror :: "page \<Rightarrow> page" where
  "ws_onerror s = s\<lparr>showError := Some ''WebSocket connection error.''\<rparr>"

section \<open>The command handlers\<close>

text \<open>\<^verbatim>\<open>sendMessageToWs\<close>, lines 143 to 150.\<close>

definition sendMessageToWs :: "string \<Rightarrow> payload \<Rightarrow> page \<Rightarrow> page" where
  "sendMessageToWs ty pl s =
     (if ws s = Some OPEN
      then s\<lparr>sent := sent s @ [(ty, pl)], showError := None\<rparr>
      else s\<lparr>showError := Some ''Not connected. Please wait or check connection.''\<rparr>)"

text \<open>\<^verbatim>\<open>handleStartDebate\<close>, lines 152 to 168.\<close>

definition handleStartDebate :: "page \<Rightarrow> page" where
  "handleStartDebate s =
     (if trim (debateTopicInput s) = [] then s\<lparr>showError := Some ''Please enter a debate topic.''\<rparr>
      else if length (selectedPersonaIds s) < 1
      then s\<lparr>showError := Some ''Please select at least one persona.''\<rparr>
      else sendMessageToWs ''start_debate''
             (TopicPersonas (debateTopicInput s) (selectedPersonaIds s))
             (s\<lparr>messages := [], thinkingSpeakers := {}\<rparr>))"

text \<open>
  \<^verbatim>\<open>handleSendMessage\<close>, lines 170 to 191. The two clock reads are inputs: \<open>now\<close> is
  what \<^verbatim>\<open>Date.now()\<close> returns, \<open>isoString\<close> what \<^verbatim>\<open>new Date().toISOString()\<close> returns.
\<close>

definition handleSendMessage :: "nat \<Rightarrow> string \<Rightarrow> page \<Rightarrow> page" where
  "handleSendMessage now isoString s =
     (if trim (userInput s) = [] then s
      else if currentSessionState s \<noteq> automated_debate
              \<and> currentSessionState s \<noteq> user_interaction
      then s\<lparr>showError := Some ''Cannot send message when not in active debate or Q&A.''\<rparr>
      else
        (let messageType =
               (if currentSessionState s = user_interaction then ''user_query''
                else ''user_interjection'');
             s1 = sendMessageToWs messageType (Content (userInput s)) s;
             userMsg = \<lparr>msg_id = ''local_'' @ string_of_nat now, speaker = ''User'',
                        content = userInput s, timestamp = isoString,
                        isThinking = None, isRegenerated = None\<rparr>
         in s1\<lparr>messages := messages s1 @ [userMsg], userInput := ''''\<rparr>))"

text \<open>\<^verbatim>\<open>handleRegenerate\<close>, lines 193 to 196.\<close>

definition handleRegenerate :: "page \<Rightarrow> page" where
  "handleRegenerate s =
     (if currentSessionState s \<noteq> automated_debate
         \<and> currentSessionState s \<noteq> user_interaction
      then s
      else sendMessageToWs ''regenerate_last_ai_turn'' NoFields s)"



section \<open>The template's gates\<close>

text \<open>The reactive values of lines 247 to 250.\<close>

definition canStartDebate :: "page \<Rightarrow> bool" where
  "canStartDebate s = (isConnected s \<and> currentSessionState s = idle)"


definition canUseActionButtons :: "page \<Rightarrow> bool" where
  "canUseActionButtons s =
     (isConnected s \<and>
      (currentSessionState s = automated_debate \<or> currentSessionState s = user_interaction))"

definition noAiMessagesYet :: "page \<Rightarrow> bool" where
  "noAiMessagesYet s =
     (length (filter (\<lambda>m. speaker m \<noteq> ''User'' \<and> speaker m \<noteq> ''System'') (messages s)) = 0)"

text \<open>
  The button "Regenerate Last AI", lines 367 to 374. It is rendered inside the block
  \<^verbatim>\<open>{#if currentSessionState === 'automated_debate' || ... 'user_interaction'}\<close>, its
  \<^verbatim>\<open>disabled\<close> attribute is \<^verbatim>\<open>!canUseActionButtons || noAiMessagesYet\<close>, and its click
  handler is \<^verbatim>\<open>handleRegenerate\<close>. A button that is not rendered or is disabled
  delivers no click.
\<close>

definition regenerate_button_rendered :: "page \<Rightarrow> bool" where
  "regenerate_button_rendered s =
     (currentSessionState s = automated_debate \<or> currentSessionState s = user_interaction)"

definition regenerate_button_disabled :: "page \<Rightarrow> bool" where
  "regenerate_button_disabled s = (\<not> canUseActionButtons s \<or> noAiMessagesYet s)"

definition click_regenerate :: "page \<Rightarrow> page" where
  "click_regenerate s =
     (if regenerate_button_rendered s then
        (if regenerate_button_disabled s then s else handleRegenerate s)
      else s)"


section \<open>The browser's side of the socket\<close>

text \<open>
  What the script leaves to the browser. A pending timer that fires calls
  \<^verbatim>\<open>connectWebSocket\<close> (line 133); with no timer pending nothing fires. The events of a
  connection attempt belong to the socket \<^verbatim>\<open>connectWebSocket\<close> created, so they occur
  only while that socket is \<^verbatim>\<open>CONNECTING\<close>: an attempt that fails sets \<^verbatim>\<open>readyState\<close> to
  \<^verbatim>\<open>CLOSED\<close> and calls \<^verbatim>\<open>onerror\<close> and \<^verbatim>\<open>onclose\<close>, in that order; one that succeeds
  sets \<^verbatim>\<open>OPEN\<close> and calls \<^verbatim>\<open>onopen\<close>. Without a socket in \<^verbatim>\<open>CONNECTING\<close> neither event
  occurs. One failed reconnection attempt is a timer firing followed by the failure of
  the socket it created.
\<close>

definition timer_fires :: "page \<Rightarrow> page" where
  "timer_fires s =
     (case timers s of [] \<Rightarrow> s | d # ds \<Rightarrow> connectWebSocket (s\<lparr>timers := ds\<rparr>))"

definition socket_fails :: "page \<Rightarrow> page" where
  "socket_fails s =
     (if ws s = Some CONNECTING then ws_onclose (ws_onerror (s\<lparr>ws := Some CLOSED\<rparr>)) else s)"

definition socket_opens :: "page \<Rightarrow> page" where
  "socket_opens s =
     (if ws s = Some CONNECTING then ws_onopen (s\<lparr>ws := Some OPEN\<rparr>) else s)"

definition failed_attempt :: "page \<Rightarrow> page" where
  "failed_attempt s = socket_fails (timer_fires s)"

section \<open>The specification's view\<close>

text \<open>
  The trigger table of the specification's section 4.2, in its order: the substrings of
  a rule, the phase it sets, and whether it clears the stored debate topic. The lookup
  takes the first rule one of whose substrings occurs in the lower-cased content.
\<close>

definition trigger_table :: "(string list \<times> session_state \<times> bool) list" where
  "trigger_table =
     [([''debate started''], automated_debate, False),
      ([''automated debate phase complete''], user_interaction, False),
      ([''generating final summary''], summarizing, False),
      ([''debate concluded'', ''session ended'', ''session stopped''], idle, True)]"

definition rule_matches :: "string \<Rightarrow> string list \<times> session_state \<times> bool \<Rightarrow> bool" where
  "rule_matches c r = list_ex (includes_sub (toLowerCase c)) (fst r)"

definition trigger_lookup :: "string \<Rightarrow> (session_state \<times> bool) option" where
  "trigger_lookup c = map_option snd (find (rule_matches c) trigger_table)"

text \<open>A durable message of the reserved speaker.\<close>

definition durable_system :: "ChatMessageFromServer \<Rightarrow> bool" where
  "durable_system m = (isThinking m \<noteq> Some True \<and> speaker m = ''System'')"

text \<open>
  The most recent event of a speaker in a sequence of inbound events, oldest first; an
  event that failed to decode belongs to no speaker.
\<close>

fun last_event_for ::
  "string \<Rightarrow> ChatMessageFromServer option list \<Rightarrow> ChatMessageFromServer option" where
  "last_event_for sp [] = None"
| "last_event_for sp (e # es) =
     (case last_event_for sp es of
        Some m \<Rightarrow> Some m
      | None \<Rightarrow>
          (case e of
             None \<Rightarrow> None
           | Some m \<Rightarrow> if speaker m = sp then Some m else None))"

text \<open>The durable messages of a sequence of inbound events, in order.\<close>

fun durable_entries :: "ChatMessageFromServer option list \<Rightarrow> ChatMessageFromServer list" where
  "durable_entries [] = []"
| "durable_entries (None # es) = durable_entries es"
| "durable_entries (Some m # es) =
     (if isThinking m = Some True then durable_entries es else m # durable_entries es)"

section \<open>Example states and events\<close>

definition envelope :: "string \<Rightarrow> string \<Rightarrow> bool option \<Rightarrow> ChatMessageFromServer" where
  "envelope sp c th =
     \<lparr>msg_id = ''m1'', speaker = sp, content = c, timestamp = ''2025-01-01T00:00:00.000Z'',
      isThinking = th, isRegenerated = None\<rparr>"

text \<open>Connected, in the question phase, with text typed.\<close>

definition qa_page :: page where
  "qa_page =
     initial_page\<lparr>ws := Some OPEN, isConnected := True,
       currentSessionState := user_interaction, debateTopicInput := ''tariffs'',
       userInput := ''first''\<rparr>"

text \<open>Connected, in the automated debate, with text typed and two speakers thinking.\<close>

definition debate_page :: page where
  "debate_page =
     initial_page\<lparr>ws := Some OPEN, isConnected := True,
       currentSessionState := automated_debate, debateTopicInput := ''tariffs'',
       userInput := ''wait'', thinkingSpeakers := {''Moderator'', ''NILM Expert''}\<rparr>"



text \<open>Idle with a topic typed and the default personas selected, socket open or closed.\<close>

definition setup_page :: "ready_state \<Rightarrow> page" where
  "setup_page r =
     initial_page\<lparr>ws := Some r, isConnected := (r = OPEN), debateTopicInput := ''tariffs'',
       messages := [envelope ''System'' ''Debate concluded.'' None],
       thinkingSpeakers := {''Moderator''}\<rparr>"

text \<open>A transcript of a System notice and a User message; the same with an AI turn.\<close>

definition no_ai_page :: page where
  "no_ai_page =
     debate_page\<lparr>messages := [envelope ''System'' ''Debate started.'' None,
                                envelope ''User'' ''hi'' None]\<rparr>"

definition ai_page :: page where
  "ai_page =
     debate_page\<lparr>messages := [envelope ''System'' ''Debate started.'' None,
                                envelope ''Moderator'' ''Welcome.'' None]\<rparr>"


section \<open>Facts about the string functions\<close>

lemma replace_all_same: "replace_all c [c] s = s"
  by (induction s) (simp_all add: replace_all_def)

lemma starts_with_iff: "starts_with s t \<longleftrightarrow> (\<exists>q. s = t @ q)"
  by (induction s t rule: starts_with.induct) auto

text \<open>\<open>includes_sub\<close> is the contiguous-substring relation.\<close>

lemma includes_sub_iff: "includes_sub s t \<longleftrightarrow> (\<exists>p q. s = p @ t @ q)"
proof (induction s)
  case Nil
  show ?case by simp
next
  case (Cons c s)
  show ?case
  proof
    assume "includes_sub (c # s) t"
    then consider "starts_with (c # s) t" | "includes_sub s t" by auto
    then show "\<exists>p q. c # s = p @ t @ q"
    proof cases
      case 1
      then obtain q where "c # s = t @ q" by (auto simp: starts_with_iff)
      then have "c # s = [] @ t @ q" by simp
      then show ?thesis by blast
    next
      case 2
      then obtain p q where "s = p @ t @ q" using Cons.IH by blast
      then have "c # s = (c # p) @ t @ q" by simp
      then show ?thesis by blast
    qed
  next
    assume "\<exists>p q. c # s = p @ t @ q"
    then obtain p q where pq: "c # s = p @ t @ q" by blast
    show "includes_sub (c # s) t"
    proof (cases p)
      case Nil
      with pq have "starts_with (c # s) t" by (auto simp: starts_with_iff)
      then show ?thesis by simp
    next
      case (Cons a p')
      with pq have "s = p' @ t @ q" by simp
      then have "includes_sub s t" using Cons.IH by blast
      then show ?thesis by simp
    qed
  qed
qed

text \<open>
  Matching in the lower-cased content is matching up to letter case: a pattern occurs
  in the lower-cased text iff some run of the text lower-cases to the pattern.
\<close>

lemma includes_lower_iff:
  "includes_sub (toLowerCase c) t \<longleftrightarrow> (\<exists>u. includes_sub c u \<and> toLowerCase u = t)"
proof
  assume "includes_sub (toLowerCase c) t"
  then obtain p q where "map lower_char c = p @ t @ q"
    by (auto simp: includes_sub_iff toLowerCase_def)
  then obtain c1 c2 where c12: "c = c1 @ c2" "map lower_char c2 = t @ q"
    by (metis map_eq_append_conv)
  then obtain u c3 where "c2 = u @ c3" "map lower_char u = t"
    by (metis map_eq_append_conv)
  with c12 have "c = c1 @ u @ c3" and "map lower_char u = t"
    by simp_all
  then show "\<exists>u. includes_sub c u \<and> toLowerCase u = t"
    by (auto simp: includes_sub_iff toLowerCase_def)
next
  assume "\<exists>u. includes_sub c u \<and> toLowerCase u = t"
  then obtain u p q where "c = p @ u @ q" and "toLowerCase u = t"
    by (auto simp: includes_sub_iff)
  then have "toLowerCase c = toLowerCase p @ t @ toLowerCase q"
    by (simp add: toLowerCase_def)
  then show "includes_sub (toLowerCase c) t"
    unfolding includes_sub_iff by blast
qed

lemma trim_first: "trim ''first'' = ''first''"
  by code_simp

lemma trim_second: "trim ''second'' = ''second''"
  by code_simp


lemma trim_wait: "trim ''wait'' = ''wait''"
  by code_simp

lemma trim_tariffs: "trim ''tariffs'' = ''tariffs''"
  by code_simp

lemma trim_spaces: "trim ''   '' = []"
  by code_simp

section \<open>The content renderer: theorems\<close>

text \<open>
  The five replaces of the \<^verbatim>\<open>catch\<close> block each put a character in its own place, so
  the fallback is the input with its line feeds converted and nothing else changed.
\<close>

lemma fallback_escapes_nothing:
  "fallback markdownText = replace_all (CHR 0x0A) ''<br>'' (String_of markdownText)"
  by (simp add: fallback_def replace_all_same)

text \<open>
  C8. On a text for which the markdown parser throws, the renderer is claimed to return
  the text with the five characters \<open>&\<close>, \<open><\<close>, \<open>>\<close>, the double and the single quote
  escaped and every line break turned into line-break markup. The code at such an
  input: the parser throws on a text holding all five characters and a line feed; the
  renderer returns (it does not throw) and converts the line feed, and the five
  characters come back unescaped.
\<close>

theorem fallback_keeps_markup:
  "parseMarkdown (\<lambda>t. Inl (Thrown ''parse error'')) sanitize True
      (JStr (''<b>&'' @ [CHR 0x22, CHR 0x27, CHR 0x0A] @ ''x'')) =
     (''<b>&'' @ [CHR 0x22, CHR 0x27] @ ''<br>x'',
      [MarkedParse (''<b>&'' @ [CHR 0x22, CHR 0x27, CHR 0x0A] @ ''x'')])"
  by (simp add: parseMarkdown_def fallback_def replace_all_def)

text \<open>
  C10. For an empty, null or undefined argument the renderer returns the empty string
  and calls neither the markdown parser nor the sanitizer, whatever the two would do.
\<close>

theorem parseMarkdown_empty_input:
  "parseMarkdown marked_parse sanitize in_browser JNull = ('''', []) \<and>
   parseMarkdown marked_parse sanitize in_browser JUndefined = ('''', []) \<and>
   parseMarkdown marked_parse sanitize in_browser (JStr '''') = ('''', [])"
  by (simp add: parseMarkdown_def)

section \<open>Inbound events: theorems\<close>

lemma onmessage_phase:
  "currentSessionState (ws_onmessage (Some m) s) =
     (if durable_system m then
        (case trigger_lookup (content m) of
           None \<Rightarrow> currentSessionState s
         | Some (p, clear) \<Rightarrow> p)
      else currentSessionState s)"
  by (simp add: ws_onmessage_def durable_system_def trigger_lookup_def trigger_table_def
      rule_matches_def Let_def)

lemma onmessage_topic:
  "debateTopicInput (ws_onmessage (Some m) s) =
     (if durable_system m then
        (case trigger_lookup (content m) of
           None \<Rightarrow> debateTopicInput s
         | Some (p, clear) \<Rightarrow> if clear then '''' else debateTopicInput s)
      else debateTopicInput s)"
  by (simp add: ws_onmessage_def durable_system_def trigger_lookup_def trigger_table_def
      rule_matches_def Let_def)

lemma lookup_session_ended: "trigger_lookup ''Session ended unexpectedly'' = Some (idle, True)"
  by code_simp

lemma lookup_debate_started: "trigger_lookup ''Debate started.'' = Some (automated_debate, False)"
  by code_simp

lemma lookup_no_trigger: "trigger_lookup ''Welcome, everyone.'' = None"
  by code_simp

text \<open>
  C1. After an inbound event is processed, the phase is the one the first matching rule
  of the trigger table gives for the content when the event is a durable message of
  speaker "System", and the old phase when no rule matches; the stored topic is emptied
  exactly when the matching rule is the one that sets Idle. Any other event (a
  thinking event, a message of another speaker) leaves phase and topic as they were.
\<close>

theorem system_notice_sets_phase:
  "currentSessionState (ws_onmessage (Some m) s) =
     (if durable_system m then
        (case trigger_lookup (content m) of
           None \<Rightarrow> currentSessionState s
         | Some (p, clear) \<Rightarrow> p)
      else currentSessionState s) \<and>
   debateTopicInput (ws_onmessage (Some m) s) =
     (if durable_system m then
        (case trigger_lookup (content m) of
           None \<Rightarrow> debateTopicInput s
         | Some (p, clear) \<Rightarrow> if clear then '''' else debateTopicInput s)
      else debateTopicInput s)"
  using onmessage_phase [of m s] onmessage_topic [of m s] by (rule conjI)

theorem system_notice_sets_phase_witness:
  "currentSessionState
     (ws_onmessage (Some (envelope ''System'' ''Session ended unexpectedly'' (Some False)))
        qa_page) = idle \<and>
   debateTopicInput
     (ws_onmessage (Some (envelope ''System'' ''Session ended unexpectedly'' (Some False)))
        qa_page) = '''' \<and>
   currentSessionState
     (ws_onmessage (Some (envelope ''System'' ''Debate started.'' None)) initial_page) =
     automated_debate \<and>
   currentSessionState
     (ws_onmessage (Some (envelope ''System'' ''Welcome, everyone.'' None)) qa_page) =
     user_interaction \<and>
   currentSessionState
     (ws_onmessage (Some (envelope ''Moderator'' ''Debate started.'' None)) qa_page) =
     user_interaction \<and>
   debateTopicInput
     (ws_onmessage (Some (envelope ''Moderator'' ''Debate concluded.'' None)) qa_page) =
     ''tariffs''"
  using
    system_notice_sets_phase
      [of "envelope ''System'' ''Session ended unexpectedly'' (Some False)" qa_page]
    system_notice_sets_phase [of "envelope ''System'' ''Debate started.'' None" initial_page]
    system_notice_sets_phase [of "envelope ''System'' ''Welcome, everyone.'' None" qa_page]
    system_notice_sets_phase [of "envelope ''Moderator'' ''Debate started.'' None" qa_page]
    system_notice_sets_phase [of "envelope ''Moderator'' ''Debate concluded.'' None" qa_page]
  by (simp add: durable_system_def envelope_def lookup_session_ended lookup_debate_started
      lookup_no_trigger qa_page_def initial_page_def)

lemma onmessage_thinking:
  "thinkingSpeakers (ws_onmessage e s) =
     (case e of
        None \<Rightarrow> thinkingSpeakers s
      | Some m \<Rightarrow>
          if isThinking m = Some True then insert (speaker m) (thinkingSpeakers s)
          else thinkingSpeakers s - {speaker m})"
  by (simp add: ws_onmessage_def Let_def split: option.split)

lemma onmessage_messages:
  "messages (ws_onmessage e s) =
     (case e of
        None \<Rightarrow> messages s
      | Some m \<Rightarrow> if isThinking m = Some True then messages s else messages s @ [m])"
  by (simp add: ws_onmessage_def Let_def split: option.split)

text \<open>
  Over a whole sequence of events, from any state: a speaker with no event in the
  sequence is thinking iff it was before, and a speaker with one is thinking iff its
  most recent event is a thinking event.
\<close>

lemma fold_onmessage_thinking:
  "sp \<in> thinkingSpeakers (fold ws_onmessage es s) \<longleftrightarrow>
     (case last_event_for sp es of
        None \<Rightarrow> sp \<in> thinkingSpeakers s
      | Some m \<Rightarrow> isThinking m = Some True)"
proof (induction es arbitrary: s)
  case Nil
  show ?case by simp
next
  case (Cons e es)
  show ?case
  proof (cases "last_event_for sp es")
    case None
    then show ?thesis
      using Cons.IH [of "ws_onmessage e s"]
      by (auto simp: onmessage_thinking split: option.splits)
  next
    case (Some m)
    then show ?thesis
      using Cons.IH [of "ws_onmessage e s"] by simp
  qed
qed

lemma fold_onmessage_messages:
  "messages (fold ws_onmessage es s) = messages s @ durable_entries es"
proof (induction es arbitrary: s)
  case Nil
  show ?case by simp
next
  case (Cons e es)
  show ?case
    by (cases e) (simp_all add: Cons.IH onmessage_messages)
qed

text \<open>
  C2. An envelope whose \<^verbatim>\<open>isThinking\<close> is true adds its speaker to the thinking set and
  leaves the transcript as it is; an envelope whose \<^verbatim>\<open>isThinking\<close> is absent or false
  removes its speaker from the set (nothing happens if it is not there) and appends
  exactly that one entry to the transcript. So after any sequence of inbound events
  from the initial state, a speaker is in the thinking set iff its most recent event
  exists and is a thinking event, and the transcript holds the durable messages of the
  sequence in order. From an arbitrary state the same holds with the state's own
  thinking set and transcript for the speakers and entries the sequence does not touch.
\<close>

theorem thinking_set_tracks_last_event:
  "(isThinking m = Some True \<longrightarrow>
      thinkingSpeakers (ws_onmessage (Some m) s) = insert (speaker m) (thinkingSpeakers s) \<and>
      messages (ws_onmessage (Some m) s) = messages s) \<and>
   (isThinking m \<noteq> Some True \<longrightarrow>
      thinkingSpeakers (ws_onmessage (Some m) s) = thinkingSpeakers s - {speaker m} \<and>
      messages (ws_onmessage (Some m) s) = messages s @ [m]) \<and>
   (sp \<in> thinkingSpeakers (fold ws_onmessage es initial_page) \<longleftrightarrow>
      (\<exists>e. last_event_for sp es = Some e \<and> isThinking e = Some True)) \<and>
   messages (fold ws_onmessage es initial_page) = durable_entries es \<and>
   (sp \<in> thinkingSpeakers (fold ws_onmessage es s) \<longleftrightarrow>
      (case last_event_for sp es of
         None \<Rightarrow> sp \<in> thinkingSpeakers s
       | Some e \<Rightarrow> isThinking e = Some True)) \<and>
   messages (fold ws_onmessage es s) = messages s @ durable_entries es"
proof -
  have "thinkingSpeakers initial_page = {}" and "messages initial_page = []"
    by (simp_all add: initial_page_def)
  then have
    "sp \<in> thinkingSpeakers (fold ws_onmessage es initial_page) \<longleftrightarrow>
       (\<exists>e. last_event_for sp es = Some e \<and> isThinking e = Some True)"
    and "messages (fold ws_onmessage es initial_page) = durable_entries es"
    by (simp_all add: fold_onmessage_thinking fold_onmessage_messages split: option.split)
  then show ?thesis
    by (simp add: onmessage_thinking onmessage_messages fold_onmessage_thinking
        fold_onmessage_messages)
qed

theorem thinking_set_tracks_last_event_witness:
  "thinkingSpeakers (ws_onmessage (Some (envelope ''A'' '''' (Some True))) initial_page) = {''A''} \<and>
   messages (ws_onmessage (Some (envelope ''A'' '''' (Some True))) initial_page) = [] \<and>
   thinkingSpeakers (ws_onmessage (Some (envelope ''Moderator'' ''Welcome.'' None)) debate_page) =
     {''NILM Expert''} \<and>
   messages (ws_onmessage (Some (envelope ''Moderator'' ''Welcome.'' None)) debate_page) =
     [envelope ''Moderator'' ''Welcome.'' None] \<and>
   ''B'' \<in> thinkingSpeakers (fold ws_onmessage
      [Some (envelope ''A'' '''' (Some True)), Some (envelope ''B'' '''' (Some True)), None,
       Some (envelope ''A'' ''Done.'' (Some False))]
      initial_page) \<and>
   ''A'' \<notin> thinkingSpeakers (fold ws_onmessage
      [Some (envelope ''A'' '''' (Some True)), Some (envelope ''B'' '''' (Some True)), None,
       Some (envelope ''A'' ''Done.'' (Some False))]
      initial_page) \<and>
   messages (fold ws_onmessage
      [Some (envelope ''A'' '''' (Some True)), Some (envelope ''B'' '''' (Some True)), None,
       Some (envelope ''A'' ''Done.'' (Some False))]
      initial_page) = [envelope ''A'' ''Done.'' (Some False)]"
  using
    thinking_set_tracks_last_event [of "envelope ''A'' '''' (Some True)" initial_page "''B''"
      "[Some (envelope ''A'' '''' (Some True)), Some (envelope ''B'' '''' (Some True)), None,
        Some (envelope ''A'' ''Done.'' (Some False))]"]
    thinking_set_tracks_last_event [of "envelope ''Moderator'' ''Welcome.'' None" debate_page
      "''A''"
      "[Some (envelope ''A'' '''' (Some True)), Some (envelope ''B'' '''' (Some True)), None,
        Some (envelope ''A'' ''Done.'' (Some False))]"]
  by (simp add: envelope_def initial_page_def debate_page_def insert_commute)

section \<open>Outbound commands: theorems\<close>

lemma sendMessageToWs_closed:
  "ws s \<noteq> Some OPEN \<Longrightarrow>
   sendMessageToWs ty pl s =
     s\<lparr>showError := Some ''Not connected. Please wait or check connection.''\<rparr>"
  by (simp add: sendMessageToWs_def)

lemma sendMessageToWs_open:
  "ws s = Some OPEN \<Longrightarrow>
   sendMessageToWs ty pl s = s\<lparr>sent := sent s @ [(ty, pl)], showError := None\<rparr>"
  by (simp add: sendMessageToWs_def)

text \<open>
  C4. \<^verbatim>\<open>handleSendMessage\<close> puts nothing on the wire and appends nothing to the
  transcript when the typed text is empty or whitespace only, or when the phase is
  neither the automated debate nor the question phase. Whenever it does put a command
  on the wire, the text was not blank, the socket was open, the phase was one of the
  two, the command is \<^verbatim>\<open>user_query\<close> in the question phase and \<^verbatim>\<open>user_interjection\<close>
  in the automated debate, it carries the typed text, and the transcript gains one
  entry of speaker "User" with that text. With a non-blank text, an open socket and
  one of the two phases it does send.
\<close>

theorem sendUserMessage_gate:
  "(trim (userInput s) = [] \<or>
      (currentSessionState s \<noteq> automated_debate \<and> currentSessionState s \<noteq> user_interaction) \<longrightarrow>
      sent (handleSendMessage now isoString s) = sent s \<and>
      messages (handleSendMessage now isoString s) = messages s) \<and>
   (sent (handleSendMessage now isoString s) \<noteq> sent s \<longrightarrow>
      trim (userInput s) \<noteq> [] \<and> ws s = Some OPEN \<and>
      (currentSessionState s = user_interaction \<or> currentSessionState s = automated_debate) \<and>
      sent (handleSendMessage now isoString s) =
        sent s @ [(if currentSessionState s = user_interaction then ''user_query''
                   else ''user_interjection'', Content (userInput s))] \<and>
      messages (handleSendMessage now isoString s) =
        messages s @ [\<lparr>msg_id = ''local_'' @ string_of_nat now, speaker = ''User'',
                        content = userInput s, timestamp = isoString,
                        isThinking = None, isRegenerated = None\<rparr>]) \<and>
   (trim (userInput s) \<noteq> [] \<and> ws s = Some OPEN \<and> currentSessionState s = user_interaction \<longrightarrow>
      sent (handleSendMessage now isoString s) =
        sent s @ [(''user_query'', Content (userInput s))]) \<and>
   (trim (userInput s) \<noteq> [] \<and> ws s = Some OPEN \<and> currentSessionState s = automated_debate \<longrightarrow>
      sent (handleSendMessage now isoString s) =
        sent s @ [(''user_interjection'', Content (userInput s))])"
  by (cases "ws s = Some OPEN")
     (auto simp: handleSendMessage_def Let_def sendMessageToWs_closed sendMessageToWs_open)

theorem sendUserMessage_gate_witness:
  "sent (handleSendMessage 42 ''t'' (qa_page\<lparr>userInput := ''   ''\<rparr>)) = [] \<and>
   messages (handleSendMessage 42 ''t'' (qa_page\<lparr>userInput := ''   ''\<rparr>)) = [] \<and>
   sent (handleSendMessage 42 ''t'' (qa_page\<lparr>currentSessionState := summarizing\<rparr>)) = [] \<and>
   messages (handleSendMessage 42 ''t'' (qa_page\<lparr>currentSessionState := summarizing\<rparr>)) = [] \<and>
   sent (handleSendMessage 42 ''t'' qa_page) = [(''user_query'', Content ''first'')] \<and>
   messages (handleSendMessage 42 ''t'' qa_page) =
     [\<lparr>msg_id = ''local_'' @ string_of_nat 42, speaker = ''User'', content = ''first'',
       timestamp = ''t'', isThinking = None, isRegenerated = None\<rparr>] \<and>
   sent (handleSendMessage 42 ''t'' debate_page) = [(''user_interjection'', Content ''wait'')]"
proof -
  let ?blank = "qa_page\<lparr>userInput := ''   ''\<rparr>"
  let ?late = "qa_page\<lparr>currentSessionState := summarizing\<rparr>"
  have "trim (userInput ?blank) = []"
    by (simp add: trim_spaces)
  with sendUserMessage_gate [of ?blank 42 "''t''"]
  have blank: "sent (handleSendMessage 42 ''t'' ?blank) = sent ?blank"
    "messages (handleSendMessage 42 ''t'' ?blank) = messages ?blank"
    by blast+
  have "currentSessionState ?late \<noteq> automated_debate \<and>
        currentSessionState ?late \<noteq> user_interaction"
    by simp
  with sendUserMessage_gate [of ?late 42 "''t''"]
  have late: "sent (handleSendMessage 42 ''t'' ?late) = sent ?late"
    "messages (handleSendMessage 42 ''t'' ?late) = messages ?late"
    by blast+
  have "trim (userInput qa_page) \<noteq> [] \<and> ws qa_page = Some OPEN \<and>
        currentSessionState qa_page = user_interaction"
    by (simp add: qa_page_def trim_first)
  with sendUserMessage_gate [of qa_page 42 "''t''"]
  have query: "sent (handleSendMessage 42 ''t'' qa_page) =
      sent qa_page @ [(''user_query'', Content (userInput qa_page))]"
    by blast
  then have "sent (handleSendMessage 42 ''t'' qa_page) \<noteq> sent qa_page"
    by simp
  with sendUserMessage_gate [of qa_page 42 "''t''"]
  have local: "messages (handleSendMessage 42 ''t'' qa_page) =
      messages qa_page @ [\<lparr>msg_id = ''local_'' @ string_of_nat 42, speaker = ''User'',
        content = userInput qa_page, timestamp = ''t'',
        isThinking = None, isRegenerated = None\<rparr>]"
    by blast
  have "trim (userInput debate_page) \<noteq> [] \<and> ws debate_page = Some OPEN \<and>
        currentSessionState debate_page = automated_debate"
    by (simp add: debate_page_def trim_wait)
  with sendUserMessage_gate [of debate_page 42 "''t''"]
  have interjection: "sent (handleSendMessage 42 ''t'' debate_page) =
      sent debate_page @ [(''user_interjection'', Content (userInput debate_page))]"
    by blast
  have fields: "sent qa_page = []" "messages qa_page = []" "userInput qa_page = ''first''"
    "sent debate_page = []" "userInput debate_page = ''wait''"
    by (simp_all add: qa_page_def debate_page_def initial_page_def)
  show ?thesis
    by (simp add: blank late query local interjection fields)
qed

text \<open>
  C6. \<^verbatim>\<open>handleStartDebate\<close> with an empty or whitespace-only topic, or with no persona
  selected, sends nothing, shows an error and changes nothing else: transcript,
  thinking set, phase and topic are as before. With a non-blank topic and at least one
  persona it empties the transcript and the thinking set, leaves phase and topic
  alone, and hands a \<^verbatim>\<open>start_debate\<close> command with the topic and the persona ids to
  \<^verbatim>\<open>sendMessageToWs\<close>, which puts it on the wire when the socket is open.
\<close>

theorem startDebate_validation:
  "(trim (debateTopicInput s) = [] \<or> selectedPersonaIds s = [] \<longrightarrow>
      sent (handleStartDebate s) = sent s \<and>
      showError (handleStartDebate s) \<noteq> None \<and>
      messages (handleStartDebate s) = messages s \<and>
      thinkingSpeakers (handleStartDebate s) = thinkingSpeakers s \<and>
      currentSessionState (handleStartDebate s) = currentSessionState s \<and>
      debateTopicInput (handleStartDebate s) = debateTopicInput s \<and>
      handleStartDebate s = s\<lparr>showError := showError (handleStartDebate s)\<rparr>) \<and>
   (trim (debateTopicInput s) \<noteq> [] \<and> selectedPersonaIds s \<noteq> [] \<longrightarrow>
      messages (handleStartDebate s) = [] \<and>
      thinkingSpeakers (handleStartDebate s) = {} \<and>
      currentSessionState (handleStartDebate s) = currentSessionState s \<and>
      debateTopicInput (handleStartDebate s) = debateTopicInput s \<and>
      handleStartDebate s =
        sendMessageToWs ''start_debate''
          (TopicPersonas (debateTopicInput s) (selectedPersonaIds s))
          (s\<lparr>messages := [], thinkingSpeakers := {}\<rparr>) \<and>
      (ws s = Some OPEN \<longrightarrow>
         sent (handleStartDebate s) =
           sent s @ [(''start_debate'',
                      TopicPersonas (debateTopicInput s) (selectedPersonaIds s))]))"
  by (cases "ws s = Some OPEN")
     (auto simp: handleStartDebate_def sendMessageToWs_closed sendMessageToWs_open)

theorem startDebate_validation_witness:
  "sent (handleStartDebate ((setup_page OPEN)\<lparr>debateTopicInput := ''   ''\<rparr>)) = [] \<and>
   showError (handleStartDebate ((setup_page OPEN)\<lparr>debateTopicInput := ''   ''\<rparr>)) \<noteq> None \<and>
   messages (handleStartDebate ((setup_page OPEN)\<lparr>debateTopicInput := ''   ''\<rparr>)) =
     [envelope ''System'' ''Debate concluded.'' None] \<and>
   sent (handleStartDebate ((setup_page OPEN)\<lparr>selectedPersonaIds := []\<rparr>)) = [] \<and>
   thinkingSpeakers (handleStartDebate ((setup_page OPEN)\<lparr>selectedPersonaIds := []\<rparr>)) =
     {''Moderator''} \<and>
   messages (handleStartDebate (setup_page OPEN)) = [] \<and>
   thinkingSpeakers (handleStartDebate (setup_page OPEN)) = {} \<and>
   currentSessionState (handleStartDebate (setup_page OPEN)) = idle \<and>
   sent (handleStartDebate (setup_page OPEN)) =
     [(''start_debate'',
       TopicPersonas ''tariffs'' [''nilm_expert'', ''data_scientist'', ''moderator''])]"
  using startDebate_validation [of "(setup_page OPEN)\<lparr>debateTopicInput := ''   ''\<rparr>"]
    startDebate_validation [of "(setup_page OPEN)\<lparr>selectedPersonaIds := []\<rparr>"]
    startDebate_validation [of "setup_page OPEN"]
  by (simp add: setup_page_def initial_page_def trim_spaces trim_tariffs sendMessageToWs_def)

text \<open>
  \<^verbatim>\<open>handleRegenerate\<close> on its own does not look at the transcript: called in the
  automated debate on a transcript of one System and one User message, with the socket
  open, it sends the command. The transcript test is the button's.
\<close>

lemma handleRegenerate_alone_sends:
  "sent (handleRegenerate no_ai_page) = [(''regenerate_last_ai_turn'', NoFields)]"
  by (simp add: handleRegenerate_def sendMessageToWs_def no_ai_page_def debate_page_def
      initial_page_def)

text \<open>
  C7. A click on "Regenerate Last AI" does nothing at all, and so sends nothing, unless
  the phase is the automated debate or the question phase and the transcript holds a
  message whose speaker is neither "User" nor "System". The transcript test is the
  button's \<^verbatim>\<open>disabled\<close> attribute (\<^verbatim>\<open>noAiMessagesYet\<close>, line 250); \<^verbatim>\<open>handleRegenerate\<close>
  itself tests the phase only. With such a message, one of the two phases and a live
  connection, the click sends \<^verbatim>\<open>regenerate_last_ai_turn\<close>.
\<close>

theorem regenerate_needs_ai_turn:
  "(\<not> ((currentSessionState s = automated_debate \<or> currentSessionState s = user_interaction) \<and>
        (\<exists>m \<in> set (messages s). speaker m \<noteq> ''User'' \<and> speaker m \<noteq> ''System'')) \<longrightarrow>
      click_regenerate s = s) \<and>
   ((currentSessionState s = automated_debate \<or> currentSessionState s = user_interaction) \<and>
    (\<exists>m \<in> set (messages s). speaker m \<noteq> ''User'' \<and> speaker m \<noteq> ''System'') \<and>
    isConnected s \<and> ws s = Some OPEN \<longrightarrow>
      sent (click_regenerate s) = sent s @ [(''regenerate_last_ai_turn'', NoFields)])"
  by (auto simp: click_regenerate_def regenerate_button_rendered_def
      regenerate_button_disabled_def canUseActionButtons_def noAiMessagesYet_def
      handleRegenerate_def sendMessageToWs_open filter_empty_conv)

theorem regenerate_needs_ai_turn_witness:
  "click_regenerate no_ai_page = no_ai_page \<and>
   sent (click_regenerate no_ai_page) = [] \<and>
   click_regenerate (ai_page\<lparr>currentSessionState := summarizing\<rparr>) =
     ai_page\<lparr>currentSessionState := summarizing\<rparr> \<and>
   sent (click_regenerate ai_page) = [(''regenerate_last_ai_turn'', NoFields)]"
  using regenerate_needs_ai_turn [of no_ai_page]
    regenerate_needs_ai_turn [of "ai_page\<lparr>currentSessionState := summarizing\<rparr>"]
    regenerate_needs_ai_turn [of ai_page]
  by (simp add: no_ai_page_def ai_page_def debate_page_def initial_page_def envelope_def)




text \<open>
  C9. Distinct transcript entries are claimed to have distinct ids, in particular any
  two messages that \<^verbatim>\<open>handleSendMessage\<close> synthesizes. The code at two sends whose
  \<^verbatim>\<open>Date.now()\<close> reads the same millisecond, the user having typed "second" after the
  first: the transcript holds two different entries with one and the same id.
\<close>

theorem same_millisecond_same_id:
  "messages (handleSendMessage 1700000000000 ''t2''
      ((handleSendMessage 1700000000000 ''t1'' qa_page)\<lparr>userInput := ''second''\<rparr>)) =
     [\<lparr>msg_id = ''local_'' @ string_of_nat 1700000000000, speaker = ''User'',
        content = ''first'', timestamp = ''t1'', isThinking = None, isRegenerated = None\<rparr>,
      \<lparr>msg_id = ''local_'' @ string_of_nat 1700000000000, speaker = ''User'',
        content = ''second'', timestamp = ''t2'', isThinking = None, isRegenerated = None\<rparr>] \<and>
   \<not> distinct (map msg_id (messages (handleSendMessage 1700000000000 ''t2''
      ((handleSendMessage 1700000000000 ''t1'' qa_page)\<lparr>userInput := ''second''\<rparr>))))"
  by (simp add: handleSendMessage_def sendMessageToWs_def qa_page_def initial_page_def
      trim_first trim_second Let_def)

section \<open>Connection loss: theorems\<close>

text \<open>The last branch of \<^verbatim>\<open>ws.onopen\<close> is never taken: opening keeps the phase.\<close>

lemma ws_onopen_fields:
  "currentSessionState (ws_onopen s) = currentSessionState s \<and>
   isConnected (ws_onopen s) = True \<and> timers (ws_onopen s) = timers s \<and>
   ws (ws_onopen s) = ws s"
  by (cases "currentSessionState s") (simp_all add: ws_onopen_def Let_def)

text \<open>
  A pending timer that fires is consumed and leaves a new socket in \<^verbatim>\<open>CONNECTING\<close>:
  the callback is \<^verbatim>\<open>connectWebSocket\<close>.
\<close>

lemma timer_fires_fields:
  "timers s \<noteq> [] \<Longrightarrow>
   ws (timer_fires s) = Some CONNECTING \<and> timers (timer_fires s) = tl (timers s) \<and>
   isConnected (timer_fires s) = isConnected s \<and>
   currentSessionState (timer_fires s) = currentSessionState s \<and>
   thinkingSpeakers (timer_fires s) = thinkingSpeakers s \<and>
   messages (timer_fires s) = messages s"
  by (cases "timers s") (simp_all add: timer_fires_def connectWebSocket_def)

lemma failed_attempt_fields:
  "timers s \<noteq> [] \<Longrightarrow>
   isConnected (failed_attempt s) = False \<and> thinkingSpeakers (failed_attempt s) = {} \<and>
   currentSessionState (failed_attempt s) = currentSessionState s \<and>
   messages (failed_attempt s) = messages s \<and>
   ws (failed_attempt s) = Some CLOSED \<and>
   timers (failed_attempt s) = tl (timers s) @ [3000]"
  using timer_fires_fields [of s]
  by (simp add: failed_attempt_def socket_fails_def ws_onclose_def ws_onerror_def)

text \<open>
  Any number of failed attempts in a row, begun with a timer of 3000 pending as the
  newest: the phase, the transcript and the number of pending timers stay, a timer of
  3000 is again the newest, and no delay other than 3000 is added.
\<close>

lemma failed_attempts_fields:
  "timers s \<noteq> [] \<and> last (timers s) = 3000 \<Longrightarrow>
   currentSessionState ((failed_attempt ^^ n) s) = currentSessionState s \<and>
   messages ((failed_attempt ^^ n) s) = messages s \<and>
   timers ((failed_attempt ^^ n) s) \<noteq> [] \<and>
   last (timers ((failed_attempt ^^ n) s)) = 3000 \<and>
   length (timers ((failed_attempt ^^ n) s)) = length (timers s) \<and>
   set (timers ((failed_attempt ^^ n) s)) \<subseteq> set (timers s) \<and>
   (0 < n \<longrightarrow>
      ws ((failed_attempt ^^ n) s) = Some CLOSED \<and>
      isConnected ((failed_attempt ^^ n) s) = False \<and>
      thinkingSpeakers ((failed_attempt ^^ n) s) = {})"
proof (induction n)
  case 0
  then show ?case by simp
next
  case (Suc n)
  let ?r = "(failed_attempt ^^ n) s"
  from Suc have ih: "currentSessionState ?r = currentSessionState s"
    "messages ?r = messages s" "timers ?r \<noteq> []" "last (timers ?r) = 3000"
    "length (timers ?r) = length (timers s)" "set (timers ?r) \<subseteq> set (timers s)"
    by simp_all
  from ih(3) obtain d ds where t: "timers ?r = d # ds"
    by (cases "timers ?r") auto
  have "3000 \<in> set (timers ?r)"
    using ih(3,4) last_in_set by metis
  with ih(6) have in_s: "3000 \<in> set (timers s)" by blast
  have step: "isConnected (failed_attempt ?r) = False"
    "thinkingSpeakers (failed_attempt ?r) = {}"
    "currentSessionState (failed_attempt ?r) = currentSessionState ?r"
    "messages (failed_attempt ?r) = messages ?r"
    "ws (failed_attempt ?r) = Some CLOSED"
    "timers (failed_attempt ?r) = tl (timers ?r) @ [3000]"
    using failed_attempt_fields [OF ih(3)] by simp_all
  have "set (tl (timers ?r) @ [3000]) \<subseteq> set (timers s)"
    using ih(6) in_s t by auto
  moreover have "length (tl (timers ?r) @ [3000]) = length (timers s)"
    using ih(5) t by simp
  ultimately show ?case
    by (simp add: step ih)
qed

text \<open>
  C5. When the socket closes, in whatever state: the connection flag is false, the
  thinking set is empty, the phase and the transcript are what they were, and one more
  reconnection timer of 3000 ms is pending. After any number \<open>n\<close> of reconnection
  attempts that fail in a row, the phase and the transcript are still what they were,
  the connection flag is false, the thinking set is empty, as many timers are pending
  as right after the close, the newest of them is of 3000 ms, and no delay other than
  3000 ms has been added; after a failed attempt the socket is \<^verbatim>\<open>CLOSED\<close>. The timer
  that fires next is consumed and creates a new socket, in \<^verbatim>\<open>CONNECTING\<close>. If no timer
  was pending when the socket closed, exactly one timer of 3000 ms is pending after
  each failure. An attempt that then succeeds leaves the socket \<^verbatim>\<open>OPEN\<close>, sets the
  connection flag, keeps the phase and schedules nothing: only the timer that fired
  is gone, so none is pending if none was pending when the socket closed.
\<close>

theorem close_clears_thinking_and_retries:
  "isConnected (ws_onclose s) = False \<and>
   thinkingSpeakers (ws_onclose s) = {} \<and>
   currentSessionState (ws_onclose s) = currentSessionState s \<and>
   messages (ws_onclose s) = messages s \<and>
   timers (ws_onclose s) = timers s @ [3000] \<and>
   currentSessionState ((failed_attempt ^^ n) (ws_onclose s)) = currentSessionState s \<and>
   messages ((failed_attempt ^^ n) (ws_onclose s)) = messages s \<and>
   isConnected ((failed_attempt ^^ n) (ws_onclose s)) = False \<and>
   thinkingSpeakers ((failed_attempt ^^ n) (ws_onclose s)) = {} \<and>
   timers ((failed_attempt ^^ n) (ws_onclose s)) \<noteq> [] \<and>
   last (timers ((failed_attempt ^^ n) (ws_onclose s))) = 3000 \<and>
   length (timers ((failed_attempt ^^ n) (ws_onclose s))) = Suc (length (timers s)) \<and>
   set (timers ((failed_attempt ^^ n) (ws_onclose s))) \<subseteq> set (timers s) \<union> {3000} \<and>
   (0 < n \<longrightarrow> ws ((failed_attempt ^^ n) (ws_onclose s)) = Some CLOSED) \<and>
   ws (timer_fires ((failed_attempt ^^ n) (ws_onclose s))) = Some CONNECTING \<and>
   timers (timer_fires ((failed_attempt ^^ n) (ws_onclose s))) =
     tl (timers ((failed_attempt ^^ n) (ws_onclose s))) \<and>
   ws (socket_opens (timer_fires ((failed_attempt ^^ n) (ws_onclose s)))) = Some OPEN \<and>
   isConnected (socket_opens (timer_fires ((failed_attempt ^^ n) (ws_onclose s)))) = True \<and>
   currentSessionState (socket_opens (timer_fires ((failed_attempt ^^ n) (ws_onclose s)))) =
     currentSessionState s \<and>
   timers (socket_opens (timer_fires ((failed_attempt ^^ n) (ws_onclose s)))) =
     tl (timers ((failed_attempt ^^ n) (ws_onclose s))) \<and>
   (timers s = [] \<longrightarrow>
      timers ((failed_attempt ^^ n) (ws_onclose s)) = [3000] \<and>
      timers (socket_opens (timer_fires ((failed_attempt ^^ n) (ws_onclose s)))) = [])"
proof -
  let ?c = "ws_onclose s"
  let ?r = "(failed_attempt ^^ n) ?c"
  have closed: "isConnected ?c = False" "thinkingSpeakers ?c = {}"
    "currentSessionState ?c = currentSessionState s" "messages ?c = messages s"
    "timers ?c = timers s @ [3000]"
    by (simp_all add: ws_onclose_def)
  have pending: "timers ?c \<noteq> [] \<and> last (timers ?c) = 3000"
    by (simp add: closed)
  note inv = failed_attempts_fields [OF pending, of n]
  have phase: "currentSessionState ?r = currentSessionState s"
    and msgs: "messages ?r = messages s"
    using inv closed by simp_all
  have timer: "timers ?r \<noteq> []" "last (timers ?r) = 3000"
    "length (timers ?r) = Suc (length (timers s))"
    "set (timers ?r) \<subseteq> set (timers s) \<union> {3000}"
    using inv closed by simp_all
  have offline: "isConnected ?r = False \<and> thinkingSpeakers ?r = {}"
  proof (cases n)
    case 0
    then show ?thesis by (simp add: closed)
  next
    case (Suc k)
    then show ?thesis using inv by simp
  qed
  have shut: "0 < n \<longrightarrow> ws ?r = Some CLOSED"
    using inv by simp
  have fires: "ws (timer_fires ?r) = Some CONNECTING"
    "timers (timer_fires ?r) = tl (timers ?r)"
    "currentSessionState (timer_fires ?r) = currentSessionState ?r"
    using timer_fires_fields [OF timer(1)] by simp_all
  have opened: "ws (socket_opens (timer_fires ?r)) = Some OPEN"
    "isConnected (socket_opens (timer_fires ?r)) = True"
    "currentSessionState (socket_opens (timer_fires ?r)) = currentSessionState s"
    "timers (socket_opens (timer_fires ?r)) = tl (timers ?r)"
    using fires phase by (simp_all add: socket_opens_def ws_onopen_fields)
  have single: "timers ?r = [3000] \<and> timers (socket_opens (timer_fires ?r)) = []"
    if "timers s = []"
  proof -
    from that timer(3) have "length (timers ?r) = 1" by simp
    with timer(1,2) have one: "timers ?r = [3000]"
      by (cases "timers ?r") simp_all
    with opened(4) show ?thesis by simp
  qed
  from closed phase msgs timer offline shut fires(1,2) opened single show ?thesis by blast
qed

theorem close_clears_thinking_and_retries_witness:
  "isConnected (ws_onclose debate_page) = False \<and>
   thinkingSpeakers (ws_onclose debate_page) = {} \<and>
   currentSessionState (ws_onclose debate_page) = automated_debate \<and>
   timers (ws_onclose debate_page) = [3000] \<and>
   timers ((failed_attempt ^^ 5) (ws_onclose debate_page)) = [3000] \<and>
   currentSessionState ((failed_attempt ^^ 5) (ws_onclose debate_page)) = automated_debate \<and>
   isConnected ((failed_attempt ^^ 5) (ws_onclose debate_page)) = False \<and>
   ws ((failed_attempt ^^ 5) (ws_onclose debate_page)) = Some CLOSED \<and>
   ws (timer_fires ((failed_attempt ^^ 5) (ws_onclose debate_page))) = Some CONNECTING \<and>
   timers (timer_fires ((failed_attempt ^^ 5) (ws_onclose debate_page))) = [] \<and>
   ws (socket_opens (timer_fires ((failed_attempt ^^ 5) (ws_onclose debate_page)))) =
     Some OPEN \<and>
   timers (socket_opens (timer_fires ((failed_attempt ^^ 5) (ws_onclose debate_page)))) = [] \<and>
   isConnected (socket_opens (timer_fires ((failed_attempt ^^ 5) (ws_onclose debate_page)))) =
     True"
proof -
  let ?r = "(failed_attempt ^^ 5) (ws_onclose debate_page)"
  have fields: "timers debate_page = []" "currentSessionState debate_page = automated_debate"
    by (simp_all add: debate_page_def initial_page_def)
  note t = close_clears_thinking_and_retries [of debate_page 5]
  from t fields have one: "timers ?r = [3000]" by blast
  from t have "timers (timer_fires ?r) = tl (timers ?r)" by blast
  with one have gone: "timers (timer_fires ?r) = []" by simp
  have pos: "(0::nat) < 5" by simp
  from t pos have shut: "ws ?r = Some CLOSED" by blast
  from t fields one gone shut show ?thesis by simp
qed

end
